theory Spec2Isabelle
  imports Complex_Main
begin

section \<open>Python values, strings and exceptions\<close>

text \<open>
  The search engine of \<^verbatim>\<open>src/search.py\<close> is embedded as HOL functions. A Python
  \<^verbatim>\<open>str\<close> is a list of Unicode code points, since \<^verbatim>\<open>len\<close> counts code points.
  A value handed to \<^verbatim>\<open>search\<close> is one of the Python objects below; \<open>PObj n\<close> stands
  for an object of any other type \<open>n\<close> (a float, a list, a numpy integer).
\<close>

type_synonym pystr = "nat list"

datatype pyval = PNone | PBool bool | PInt int | PStr pystr | PObj string

definition ascii :: "string \<Rightarrow> pystr" where
  "ascii s = map of_char s"

text \<open>
  \<^verbatim>\<open>str.isspace\<close> for one character: the code points Python treats as whitespace
  (bidirectional class WS, B or S, or category Zs).
\<close>

definition py_isspace :: "nat \<Rightarrow> bool" where
  "py_isspace c =
     ((9 \<le> c \<and> c \<le> 13) \<or> (28 \<le> c \<and> c \<le> 32) \<or> c = 133 \<or> c = 160 \<or> c = 5760
      \<or> (8192 \<le> c \<and> c \<le> 8202) \<or> c = 8232 \<or> c = 8233 \<or> c = 8239 \<or> c = 8287
      \<or> c = 12288)"

text \<open>\<^verbatim>\<open>str.strip()\<close>: leading and trailing whitespace removed.\<close>

definition py_strip :: "pystr \<Rightarrow> pystr" where
  "py_strip s = rev (dropWhile py_isspace (rev (dropWhile py_isspace s)))"

text \<open>\<^verbatim>\<open>str(n)\<close> for an integer, as the f-strings of the error messages print it.\<close>

fun str_nat :: "nat \<Rightarrow> string" where
  "str_nat n =
     (if n < 10 then [''0123456789'' ! n]
      else str_nat (n div 10) @ [''0123456789'' ! (n mod 10)])"

definition str_int :: "int \<Rightarrow> string" where
  "str_int i = (if i < 0 then CHR ''-'' # str_nat (nat (- i)) else str_nat (nat i))"

text \<open>
  The exception classes of lines 76 to 88, with the built-in classes the engine meets.
  \<open>Builtin n\<close> is the built-in exception class named \<open>n\<close> (RuntimeError, TypeError,
  AttributeError, IndexError), taken as a direct subclass of \<open>Exception\<close>. Interrupts
  that are not subclasses of \<open>Exception\<close> (KeyboardInterrupt, SystemExit) are not
  modelled, so \<^verbatim>\<open>except Exception\<close> catches every modelled exception.
\<close>

datatype exn_class = Exception | SearchError | InitializationError | InvalidQueryError
  | Builtin string

text \<open>The method resolution order of a class: the class and its base classes.\<close>

fun mro :: "exn_class \<Rightarrow> exn_class list" where
  "mro Exception = [Exception]"
| "mro SearchError = [SearchError, Exception]"
| "mro InitializationError = [InitializationError, SearchError, Exception]"
| "mro InvalidQueryError = [InvalidQueryError, SearchError, Exception]"
| "mro (Builtin n) = [Builtin n, Exception]"

definition issubclass :: "exn_class \<Rightarrow> exn_class \<Rightarrow> bool" where
  "issubclass c d = (d \<in> set (mro c))"

text \<open>
  An exception object: its class, its message (\<^verbatim>\<open>str(e)\<close>) and its
  \<^verbatim>\<open>__cause__\<close>, set by \<^verbatim>\<open>raise ... from e\<close>.
\<close>

datatype pyexn = PyExn (exn_cls: exn_class) (exn_msg: string) (exn_cause: "pyexn option")

definition isinstance_exn :: "pyexn \<Rightarrow> exn_class \<Rightarrow> bool" where
  "isinstance_exn e c = issubclass (exn_cls e) c"

text \<open>
  A \<^verbatim>\<open>try\<close> statement runs the first \<^verbatim>\<open>except\<close> clause whose class the exception
  is an instance of: \<open>except_clause cs e\<close> is the position of that clause among the
  clauses \<open>cs\<close>, or \<open>None\<close> when the exception propagates.
\<close>

fun except_clause :: "exn_class list \<Rightarrow> pyexn \<Rightarrow> nat option" where
  "except_clause [] e = None"
| "except_clause (c # cs) e =
     (if isinstance_exn e c then Some 0 else map_option Suc (except_clause cs e))"

section \<open>Configuration\<close>

text \<open>
  The class \<^verbatim>\<open>Config\<close> (lines 34 to 50) and a configuration object as the engine
  reads it. A field is what \<^verbatim>\<open>self.config.NAME\<close> evaluates to: the attribute of the
  instance when one was assigned, the class attribute otherwise.
  \<open>cls_EMBEDDINGS_DIR\<close> is the class attribute \<^verbatim>\<open>Config.EMBEDDINGS_DIR\<close>, which the
  class method \<^verbatim>\<open>validate\<close> reads as \<^verbatim>\<open>cls.EMBEDDINGS_DIR\<close> whatever was assigned on
  the instance. \<open>Config_defaults\<close> holds the defaults of the source for a given
  embeddings directory; \<open>cfg\<lparr>EMBEDDINGS_DIR := d\<rparr>\<close> is the assignment
  \<^verbatim>\<open>config.EMBEDDINGS_DIR = d\<close> on an instance.
\<close>

record config =
  cls_EMBEDDINGS_DIR :: string
  EMBEDDINGS_DIR :: string
  MODEL_NAME :: string
  PRETRAINED :: string
  TOKENIZER_NAME :: "string option"
  DEVICE :: string
  DTYPE :: string
  NORMALIZE_EMBEDDINGS :: bool
  DEFAULT_TOP_K :: int
  MIN_QUERY_LENGTH :: int
  MAX_QUERY_LENGTH :: int

definition Config_defaults :: "string \<Rightarrow> config" where
  "Config_defaults dir =
     \<lparr> cls_EMBEDDINGS_DIR = dir, EMBEDDINGS_DIR = dir,
       MODEL_NAME = ''ViT-B-32'', PRETRAINED = ''openai'',
       TOKENIZER_NAME = None, DEVICE = ''cpu'', DTYPE = ''auto'',
       NORMALIZE_EMBEDDINGS = True, DEFAULT_TOP_K = 5,
       MIN_QUERY_LENGTH = 2, MAX_QUERY_LENGTH = 512 \<rparr>"

text \<open>\<^verbatim>\<open>Path.__truediv__\<close>: a file name below a directory.\<close>

definition path_join :: "string \<Rightarrow> string \<Rightarrow> string" where
  "path_join dir name = dir @ ''/'' @ name"

section \<open>Arrays and tensors\<close>

text \<open>
  Numbers are real numbers. This idealises the float32 and float16 arithmetic of the
  code: rounding, overflow, infinities and NaN are not modelled, and a cast between
  precisions keeps the values. The shape of every array, the number of results and
  the indices are the code's; the value of a score is the code's only where the
  floating-point operations involved are exact, and no theorem below bounds or orders
  the scores of the code in general. A numpy array of shape \<open>(N, D)\<close> and a torch
  tensor of shape \<open>[N, D]\<close> are the list of their \<open>N\<close> rows with the column count
  \<open>D\<close> beside it, since an array with no row still has a \<open>D\<close>.
\<close>

datatype dtype = float16 | float32

record ndarray =
  nd_cols :: nat
  nd_rows :: "real list list"

record tensor =
  t_dtype :: dtype
  t_cols :: nat
  t_rows :: "real list list"

definition l2_norm :: "real list \<Rightarrow> real" where
  "l2_norm v = sqrt (sum_list (map (\<lambda>x. x * x) v))"

text \<open>
  \<^verbatim>\<open>F.normalize(t, p=2, dim=1)\<close> (and \<^verbatim>\<open>dim=-1\<close>, the same axis of a matrix): every
  row is divided by \<open>max (l2_norm row) eps\<close>, with torch's default \<open>eps = 1e-12\<close>.
\<close>

definition normalize_eps :: real where
  "normalize_eps = 1 / 10 ^ 12"

definition normalize_row :: "real list \<Rightarrow> real list" where
  "normalize_row v = map (\<lambda>x. x / max (l2_norm v) normalize_eps) v"

definition F_normalize :: "tensor \<Rightarrow> tensor" where
  "F_normalize t = t\<lparr>t_rows := map normalize_row (t_rows t)\<rparr>"

definition dot :: "real list \<Rightarrow> real list \<Rightarrow> real" where
  "dot u v = sum_list (map (\<lambda>p. fst p * snd p) (zip u v))"

text \<open>
  \<^verbatim>\<open>m @ v\<close> for a matrix \<open>[N, D]\<close> and a vector \<open>[D']\<close>: torch raises a RuntimeError
  when \<open>D\<close> and \<open>D'\<close> differ, and returns the \<open>N\<close> inner products otherwise.
\<close>

definition matmul :: "tensor \<Rightarrow> real list \<Rightarrow> pyexn + real list" where
  "matmul m v =
     (if t_cols m = length v then Inr (map (\<lambda>r. dot r v) (t_rows m))
      else Inl (PyExn (Builtin ''RuntimeError'') ''size mismatch'' None))"

text \<open>\<^verbatim>\<open>text_features[0]\<close>: the first row, an IndexError when there is none.\<close>

definition row0 :: "tensor \<Rightarrow> pyexn + real list" where
  "row0 t =
     (case t_rows t of
        [] \<Rightarrow> Inl (PyExn (Builtin ''IndexError'') ''index 0 is out of bounds'' None)
      | r # _ \<Rightarrow> Inr r)"

text \<open>
  \<^verbatim>\<open>torch.topk(xs, k=k, largest=True)\<close> on a vector: the \<open>k\<close> largest values in
  descending order, each with its index. torch raises a RuntimeError when \<open>k\<close> is out
  of range, and a TypeError when \<open>k\<close> is not a plain integer (its argument parser
  refuses a \<open>bool\<close>). The order among equal values is left open by torch and differs
  from kernel to kernel; the model takes the lower index first (a stable sort), and
  the theorems below use the number of pairs and the range of the indices only.
\<close>

definition torch_topk :: "real list \<Rightarrow> pyval \<Rightarrow> pyexn + (real \<times> nat) list" where
  "torch_topk xs k =
     (case k of
        PInt n \<Rightarrow>
          (if n < 0 \<or> int (length xs) < n
           then Inl (PyExn (Builtin ''RuntimeError'') ''selected index k out of range'' None)
           else Inr (take (nat n) (sort_key (\<lambda>p. - fst p) (zip xs [0..<length xs]))))
      | _ \<Rightarrow> Inl (PyExn (Builtin ''TypeError'') ''topk(): argument k must be int'' None))"

section \<open>The libraries and the file system\<close>

text \<open>
  What the engine calls outside itself: \<^verbatim>\<open>Path.exists\<close>, \<^verbatim>\<open>np.load\<close>,
  \<^verbatim>\<open>torch.device\<close>, the three entry points of \<^verbatim>\<open>open_clip\<close>, and the move of a tensor
  to a device. Each call either raises or returns; a call that returns the same result
  for the same arguments is a function. Reading the embeddings file yields a matrix
  and reading the filenames file yields a vector of strings, as the snapshot format
  says. Arrays of another rank or element type are outside the model: on them the
  source raises inside the same \<^verbatim>\<open>try\<close> block (\<^verbatim>\<open>shape[0]\<close>, \<^verbatim>\<open>len\<close>, \<^verbatim>\<open>astype\<close>,
  \<^verbatim>\<open>F.normalize\<close>) or builds a tensor that is not a matrix.
  A tokenizer maps a list of Python objects to token ids, a model maps token ids to a
  feature matrix with one row per text.
\<close>

type_synonym tokens = "int list list"

type_synonym tokenizer = "pyval list \<Rightarrow> pyexn + tokens"

datatype clip_model = ClipModel (encode_text: "tokens \<Rightarrow> pyexn + tensor")

record world =
  path_exists :: "string \<Rightarrow> bool"
  read_npy :: "string \<Rightarrow> bool \<Rightarrow> pyexn + ndarray"
  read_npy_pickle :: "string \<Rightarrow> pyexn + pystr list"
  torch_device :: "string \<Rightarrow> pyexn + string"
  create_model_and_transforms :: "string \<Rightarrow> string \<Rightarrow> string \<Rightarrow> pyexn + clip_model"
  get_tokenizer :: "string \<Rightarrow> pyexn + tokenizer"
  tokenize :: tokenizer
  to_device :: "string \<Rightarrow> pyexn option"

text \<open>
  \<open>read_npy w p mmap\<close> and \<open>read_npy_pickle w p\<close> are what numpy makes of the file
  that exists at \<open>p\<close>, with and without \<^verbatim>\<open>mmap_mode="r"\<close>; \<open>torch_device w s\<close> is the
  type of the device \<^verbatim>\<open>torch.device(s)\<close>; \<open>to_device w d\<close> is the exception that
  moving a tensor to device \<open>d\<close> raises, if any.
\<close>

text \<open>
  \<^verbatim>\<open>np.load(p, mmap_mode="r")\<close> (\<open>mmap\<close> true), \<^verbatim>\<open>np.load(p)\<close> and
  \<^verbatim>\<open>np.load(p, allow_pickle=True)\<close>: a FileNotFoundError when nothing exists at \<open>p\<close>.
\<close>

definition np_load :: "world \<Rightarrow> string \<Rightarrow> bool \<Rightarrow> pyexn + ndarray" where
  "np_load w p mmap =
     (if path_exists w p then read_npy w p mmap
      else Inl (PyExn (Builtin ''FileNotFoundError'') (''No such file or directory: '' @ p) None))"

definition np_load_pickle :: "world \<Rightarrow> string \<Rightarrow> pyexn + pystr list" where
  "np_load_pickle w p =
     (if path_exists w p then read_npy_pickle w p
      else Inl (PyExn (Builtin ''FileNotFoundError'') (''No such file or directory: '' @ p) None))"

text \<open>
  \<^verbatim>\<open>Config.validate\<close> (lines 52 to 70), a class method: the directory it checks is
  the class attribute, not the directory of the instance it is called on.
\<close>

definition Config_validate :: "world \<Rightarrow> config \<Rightarrow> bool" where
  "Config_validate w cfg =
     (if \<not> path_exists w (cls_EMBEDDINGS_DIR cfg) then False
      else if \<not> path_exists w (path_join (cls_EMBEDDINGS_DIR cfg) ''image_embeddings.npy'')
        then False
      else if \<not> path_exists w (path_join (cls_EMBEDDINGS_DIR cfg) ''image_filenames.npy'')
        then False
      else True)"

section \<open>The search engine\<close>

text \<open>
  The attributes of a \<^verbatim>\<open>CLIPSearchEngine\<close> object. \<^verbatim>\<open>del self.model\<close> removes the
  attribute from the object, after which reading it raises an AttributeError: the
  attribute \<open>model\<close> is either \<open>Deleted\<close> or \<open>Bound\<close> to a value, and the value is
  \<open>None\<close> or a model. The attribute \<open>preprocess\<close> is never read and is left out.
\<close>

datatype 'a attr = Deleted | Bound 'a

record engine =
  config :: config
  model :: "clip_model option attr"
  tokenizer :: "tokenizer option"
  image_embeddings :: "ndarray option"
  image_filenames :: "pystr list option"
  image_embeddings_t :: "tensor option"
  device :: string

text \<open>
  \<^verbatim>\<open>np.load(embeddings_file, mmap_mode="r")\<close> with its fallback (lines 137 to 140).
\<close>

definition load_embeddings :: "world \<Rightarrow> string \<Rightarrow> pyexn + ndarray" where
  "load_embeddings w embeddings_file =
     (case np_load w embeddings_file True of
        Inl e \<Rightarrow>
          (if isinstance_exn e (Builtin ''TypeError'') then np_load w embeddings_file False
           else Inl e)
      | Inr a \<Rightarrow> Inr a)"

text \<open>
  The tokenizer of lines 167 to 177: \<^verbatim>\<open>TOKENIZER_NAME or MODEL_NAME\<close> (an empty name
  is falsy), and the default tokenizer when \<^verbatim>\<open>get_tokenizer\<close> raises.
\<close>

definition bind_tokenizer :: "world \<Rightarrow> config \<Rightarrow> tokenizer" where
  "bind_tokenizer w cfg =
     (let tokenizer_name =
        (case TOKENIZER_NAME cfg of
           None \<Rightarrow> MODEL_NAME cfg
         | Some n \<Rightarrow> if n = [] then MODEL_NAME cfg else n)
      in case get_tokenizer w tokenizer_name of
           Inr t \<Rightarrow> t
         | Inl e \<Rightarrow> tokenize w)"

text \<open>
  The embeddings tensor of lines 179 to 190: cast to float32, moved to the device with
  the configured precision, its rows normalised if configured.
\<close>

definition embeddings_tensor :: "world \<Rightarrow> engine \<Rightarrow> ndarray \<Rightarrow> pyexn + tensor" where
  "embeddings_tensor w eng emb =
     (let cfg = config eng;
          dt = (if DTYPE cfg = ''float16'' \<or> (DTYPE cfg = ''auto'' \<and> device eng = ''cuda'')
                then float16 else float32);
          emb_t = \<lparr>t_dtype = dt, t_cols = nd_cols emb, t_rows = nd_rows emb\<rparr>
      in case to_device w (device eng) of
           Some e \<Rightarrow> Inl e
         | None \<Rightarrow> Inr (if NORMALIZE_EMBEDDINGS cfg then F_normalize emb_t else emb_t))"

text \<open>
  The \<^verbatim>\<open>try\<close> block of \<^verbatim>\<open>_initialize\<close> (lines 131 to 192); both files are loaded
  from \<^verbatim>\<open>self.config.EMBEDDINGS_DIR\<close>.
\<close>

definition initialize_try :: "world \<Rightarrow> engine \<Rightarrow> pyexn + engine" where
  "initialize_try w eng =
     (let cfg = config eng;
          embeddings_file = path_join (EMBEDDINGS_DIR cfg) ''image_embeddings.npy'';
          filenames_file = path_join (EMBEDDINGS_DIR cfg) ''image_filenames.npy''
      in case load_embeddings w embeddings_file of
           Inl e \<Rightarrow> Inl e
         | Inr emb \<Rightarrow>
        (case np_load_pickle w filenames_file of
           Inl e \<Rightarrow> Inl e
         | Inr fns \<Rightarrow>
        if length (nd_rows emb) \<noteq> length fns
        then Inl (PyExn InitializationError
               (''Embeddings shape '' @ str_nat (length (nd_rows emb))
                  @ '' does not match filenames length '' @ str_nat (length fns)) None)
        else
        (case create_model_and_transforms w (MODEL_NAME cfg) (PRETRAINED cfg) (DEVICE cfg) of
           Inl e \<Rightarrow> Inl e
         | Inr m \<Rightarrow>
        (case embeddings_tensor w eng emb of
           Inl e \<Rightarrow> Inl e
         | Inr emb_t \<Rightarrow>
             Inr (eng\<lparr>image_embeddings := Some emb, image_filenames := Some fns,
                      model := Bound (Some m), tokenizer := Some (bind_tokenizer w cfg),
                      image_embeddings_t := Some emb_t\<rparr>)))))"

text \<open>\<^verbatim>\<open>_initialize\<close> (lines 122 to 196).\<close>

definition initialize :: "world \<Rightarrow> engine \<Rightarrow> pyexn + engine" where
  "initialize w eng =
     (if \<not> Config_validate w (config eng)
      then Inl (PyExn InitializationError ''Configuration validation failed'' None)
      else case initialize_try w eng of
             Inl e \<Rightarrow>
               Inl (PyExn InitializationError (''Initialization failed: '' @ exn_msg e) (Some e))
           | Inr eng' \<Rightarrow> Inr eng')"

text \<open>
  \<^verbatim>\<open>__init__\<close> (lines 102 to 120): \<^verbatim>\<open>torch.device\<close> is called before
  \<^verbatim>\<open>_initialize\<close> and outside its \<^verbatim>\<open>try\<close> block.
\<close>

definition CLIPSearchEngine :: "world \<Rightarrow> config \<Rightarrow> pyexn + engine" where
  "CLIPSearchEngine w cfg =
     (case torch_device w (DEVICE cfg) of
        Inl e \<Rightarrow> Inl e
      | Inr dev \<Rightarrow>
          initialize w
            \<lparr>config = cfg, model = Bound None, tokenizer = None, image_embeddings = None,
             image_filenames = None, image_embeddings_t = None, device = dev\<rparr>)"

text \<open>\<^verbatim>\<open>num_images\<close> (lines 292 to 297).\<close>

definition num_images :: "engine \<Rightarrow> int" where
  "num_images eng = (case image_filenames eng of None \<Rightarrow> 0 | Some fns \<Rightarrow> int (length fns))"

text \<open>
  \<^verbatim>\<open>_validate_query\<close> (lines 198 to 221): \<open>None\<close> when the method returns, the
  exception when it raises.
\<close>

definition validate_query :: "engine \<Rightarrow> pyval \<Rightarrow> pyexn option" where
  "validate_query eng query =
     (case query of
        PStr s \<Rightarrow>
          (let query_stripped = py_strip s in
           if int (length query_stripped) < MIN_QUERY_LENGTH (config eng)
           then Some (PyExn InvalidQueryError
                  (''Query too short (minimum '' @ str_int (MIN_QUERY_LENGTH (config eng))
                     @ '' characters)'') None)
           else if MAX_QUERY_LENGTH (config eng) < int (length query_stripped)
           then Some (PyExn InvalidQueryError
                  (''Query too long (maximum '' @ str_int (MAX_QUERY_LENGTH (config eng))
                     @ '' characters)'') None)
           else None)
      | _ \<Rightarrow> Some (PyExn InvalidQueryError ''Query must be a string'' None))"

text \<open>
  \<^verbatim>\<open>isinstance(v, int)\<close> and the integer an \<^verbatim>\<open>int\<close> instance compares as:
  \<^verbatim>\<open>bool\<close> is a subclass of \<^verbatim>\<open>int\<close>, with \<^verbatim>\<open>True == 1\<close> and \<^verbatim>\<open>False == 0\<close>.
\<close>

definition isinstance_int :: "pyval \<Rightarrow> bool" where
  "isinstance_int v = (case v of PInt _ \<Rightarrow> True | PBool _ \<Rightarrow> True | _ \<Rightarrow> False)"

definition int_of :: "pyval \<Rightarrow> int" where
  "int_of v = (case v of PInt i \<Rightarrow> i | PBool b \<Rightarrow> (if b then 1 else 0) | _ \<Rightarrow> 0)"

text \<open>
  \<^verbatim>\<open>min(top_k, n)\<close> for an \<^verbatim>\<open>int\<close> instance \<open>top_k\<close>: the second argument when it is
  strictly smaller, the first argument itself otherwise.
\<close>

definition py_min :: "pyval \<Rightarrow> int \<Rightarrow> pyval" where
  "py_min top_k n = (if n < int_of top_k then PInt n else top_k)"

text \<open>
  The computation of the \<^verbatim>\<open>try\<close> block of \<^verbatim>\<open>search\<close> is a sequence of steps, each
  raising or returning; the calls of the tokenizer, the model and the numeric kernels
  are recorded in the order they are made. A computation is its result with the calls
  made so far; \<open>comp_bind\<close> runs the next step unless an exception was raised.
\<close>

datatype event = Tokenize | EncodeText | Normalize | MatMul | TopK

type_synonym 'a comp = "(pyexn + 'a) \<times> event list"

definition call :: "event \<Rightarrow> pyexn + 'a \<Rightarrow> 'a comp" where
  "call ev r = (r, [ev])"

definition step :: "pyexn + 'a \<Rightarrow> 'a comp" where
  "step r = (r, [])"

definition comp_bind :: "'a comp \<Rightarrow> ('a \<Rightarrow> 'b comp) \<Rightarrow> 'b comp" where
  "comp_bind m f =
     (case fst m of
        Inl e \<Rightarrow> (Inl e, snd m)
      | Inr x \<Rightarrow> (fst (f x), snd m @ snd (f x)))"

text \<open>Reading \<^verbatim>\<open>self.model.encode_text\<close> and \<^verbatim>\<open>self.image_embeddings_t.dtype\<close>.\<close>

definition get_model :: "engine \<Rightarrow> pyexn + clip_model" where
  "get_model eng =
     (case model eng of
        Deleted \<Rightarrow>
          Inl (PyExn (Builtin ''AttributeError'')
                 ''CLIPSearchEngine object has no attribute model'' None)
      | Bound None \<Rightarrow>
          Inl (PyExn (Builtin ''AttributeError'')
                 ''NoneType object has no attribute encode_text'' None)
      | Bound (Some m) \<Rightarrow> Inr m)"

definition get_embeddings_t :: "engine \<Rightarrow> pyexn + tensor" where
  "get_embeddings_t eng =
     (case image_embeddings_t eng of
        None \<Rightarrow>
          Inl (PyExn (Builtin ''AttributeError'')
                 ''NoneType object has no attribute dtype'' None)
      | Some t \<Rightarrow> Inr t)"

definition moved :: "world \<Rightarrow> engine \<Rightarrow> 'a \<Rightarrow> pyexn + 'a" where
  "moved w eng x = (case to_device w (device eng) of Some e \<Rightarrow> Inl e | None \<Rightarrow> Inr x)"

text \<open>
  The list comprehension of lines 280 to 283 over \<^verbatim>\<open>zip(idx_list, scores_list)\<close>:
  \<^verbatim>\<open>self.image_filenames[i]\<close> raises a TypeError when the attribute is \<open>None\<close> and an
  IndexError when \<open>i\<close> is out of range.
\<close>

fun build_results :: "pystr list option \<Rightarrow> (real \<times> nat) list \<Rightarrow> pyexn + (pystr \<times> real) list"
  where
  "build_results fns [] = Inr []"
| "build_results fns ((s, i) # rest) =
     (case fns of
        None \<Rightarrow> Inl (PyExn (Builtin ''TypeError'') ''NoneType object is not subscriptable'' None)
      | Some names \<Rightarrow>
          if i < length names
          then (case build_results fns rest of
                  Inl e \<Rightarrow> Inl e
                | Inr rs \<Rightarrow> Inr ((names ! i, s) # rs))
          else Inl (PyExn (Builtin ''IndexError'') ''index out of bounds'' None))"

text \<open>The \<^verbatim>\<open>try\<close> block of \<^verbatim>\<open>search\<close> (lines 254 to 286).\<close>

definition search_try :: "world \<Rightarrow> engine \<Rightarrow> pyval \<Rightarrow> pyval \<Rightarrow> ((pystr \<times> real) list) comp" where
  "search_try w eng query top_k =
     comp_bind (call Tokenize
        ((case tokenizer eng of Some t \<Rightarrow> t | None \<Rightarrow> tokenize w) [query])) (\<lambda>text_tokens.
     comp_bind (step (moved w eng text_tokens)) (\<lambda>text_tokens.
     comp_bind (step (get_model eng)) (\<lambda>m.
     comp_bind (call EncodeText (encode_text m text_tokens)) (\<lambda>text_features.
     comp_bind (step (get_embeddings_t eng)) (\<lambda>emb_t.
     comp_bind (step (moved w eng (text_features\<lparr>t_dtype := t_dtype emb_t\<rparr>))) (\<lambda>text_features.
     comp_bind (call Normalize (Inr (F_normalize text_features))) (\<lambda>text_features.
     comp_bind (step (row0 text_features)) (\<lambda>q.
     comp_bind (call MatMul (matmul emb_t q)) (\<lambda>similarities.
     comp_bind (call TopK (torch_topk similarities top_k)) (\<lambda>ranked.
     step (build_results (image_filenames eng) ranked)))))))))))"

text \<open>
  \<^verbatim>\<open>search\<close> (lines 223 to 290). A call yields what it returns or raises, the engine
  as the call leaves it, and the calls made by its \<^verbatim>\<open>try\<close> block.
\<close>

record search_run =
  outcome :: "pyexn + (pystr \<times> real) list"
  engine_after :: engine
  compute :: "event list"

text \<open>Lines 242 and 243: an unset \<^verbatim>\<open>top_k\<close> is the configured default.\<close>

definition resolve_top_k :: "engine \<Rightarrow> pyval \<Rightarrow> pyval" where
  "resolve_top_k eng top_k =
     (if top_k = PNone then PInt (DEFAULT_TOP_K (config eng)) else top_k)"

definition search :: "world \<Rightarrow> engine \<Rightarrow> pyval \<Rightarrow> pyval \<Rightarrow> search_run" where
  "search w eng query top_k0 =
     (let top_k = resolve_top_k eng top_k0 in
      case validate_query eng query of
        Some e \<Rightarrow> \<lparr>outcome = Inl e, engine_after = eng, compute = []\<rparr>
      | None \<Rightarrow>
          if \<not> isinstance_int top_k \<or> int_of top_k < 1
          then \<lparr>outcome = Inl (PyExn InvalidQueryError ''top_k must be a positive integer'' None),
                engine_after = eng, compute = []\<rparr>
          else
            (let top_k = py_min top_k (num_images eng);
                 r = search_try w eng query top_k
             in case fst r of
                  Inl e \<Rightarrow>
                    \<lparr>outcome = Inl (PyExn SearchError
                                     (''Search operation failed: '' @ exn_msg e) (Some e)),
                     engine_after = eng, compute = snd r\<rparr>
                | Inr results \<Rightarrow> \<lparr>outcome = Inr results, engine_after = eng, compute = snd r\<rparr>))"

text \<open>
  \<^verbatim>\<open>cleanup\<close> (lines 299 to 304) and \<^verbatim>\<open>__exit__\<close> (lines 310 to 312). Reading
  \<^verbatim>\<open>self.model\<close> raises when the attribute was deleted; emptying the CUDA cache does
  not touch the engine.
\<close>

definition cleanup :: "engine \<Rightarrow> pyexn + engine" where
  "cleanup eng =
     (case model eng of
        Deleted \<Rightarrow>
          Inl (PyExn (Builtin ''AttributeError'')
                 ''CLIPSearchEngine object has no attribute model'' None)
      | Bound None \<Rightarrow> Inr eng
      | Bound (Some m) \<Rightarrow> Inr (eng\<lparr>model := Deleted\<rparr>))"

definition exit_engine :: "engine \<Rightarrow> pyexn + engine" where
  "exit_engine eng = cleanup eng"

section \<open>A concrete snapshot and model\<close>

text \<open>
  A world to run the engine in: a snapshot of three images in the directory
  \<open>data\<close>, a tokenizer that maps a string to its code points, and a model that
  returns the features \<open>[4, 3]\<close> for every text and raises on a text of more than
  eight tokens.
\<close>

definition demo_tokenizer :: tokenizer where
  "demo_tokenizer qs = Inr (map (\<lambda>q. case q of PStr s \<Rightarrow> map int s | _ \<Rightarrow> []) qs)"

definition demo_model :: clip_model where
  "demo_model =
     ClipModel (\<lambda>toks.
       if list_ex (\<lambda>t. 8 < length t) toks
       then Inl (PyExn (Builtin ''RuntimeError'') ''context length exceeded'' None)
       else Inr \<lparr>t_dtype = float32, t_cols = 2, t_rows = map (\<lambda>t. [4, 3]) toks\<rparr>)"

definition demo_world :: world where
  "demo_world =
     \<lparr> path_exists = (\<lambda>p. p = ''data'' \<or> p = ''data/image_embeddings.npy''
                          \<or> p = ''data/image_filenames.npy''),
       read_npy = (\<lambda>p mmap.
          if p = ''data/image_embeddings.npy''
          then Inr \<lparr>nd_cols = 2, nd_rows = [[3, 4], [2, 0], [0, 1]]\<rparr>
          else Inl (PyExn (Builtin ''ValueError'') ''Cannot load file'' None)),
       read_npy_pickle = (\<lambda>p.
          if p = ''data/image_filenames.npy''
          then Inr [ascii ''cat.jpg'', ascii ''dog.jpg'', ascii ''car.jpg'']
          else Inl (PyExn (Builtin ''ValueError'') ''Cannot load file'' None)),
       torch_device = (\<lambda>s.
          if s = ''cpu'' \<or> s = ''cuda'' then Inr s
          else Inl (PyExn (Builtin ''RuntimeError'') ''Expected one of cpu, cuda'' None)),
       create_model_and_transforms = (\<lambda>name pretrained dev. Inr demo_model),
       get_tokenizer = (\<lambda>name. Inr demo_tokenizer),
       tokenize = demo_tokenizer,
       to_device = (\<lambda>d.
          if d = ''cpu'' then None
          else Some (PyExn (Builtin ''RuntimeError'') ''CUDA is not available'' None)) \<rparr>"

definition demo_config :: config where
  "demo_config = Config_defaults ''data''"

text \<open>The engine that construction yields in this world, rows normalised.\<close>

definition demo_engine :: engine where
  "demo_engine =
     \<lparr> config = demo_config, model = Bound (Some demo_model),
       tokenizer = Some demo_tokenizer,
       image_embeddings = Some \<lparr>nd_cols = 2, nd_rows = [[3, 4], [2, 0], [0, 1]]\<rparr>,
       image_filenames = Some [ascii ''cat.jpg'', ascii ''dog.jpg'', ascii ''car.jpg''],
       image_embeddings_t =
         Some \<lparr>t_dtype = float32, t_cols = 2, t_rows = [[3 / 5, 4 / 5], [1, 0], [0, 1]]\<rparr>,
       device = ''cpu'' \<rparr>"

section \<open>Predicates of the specification\<close>










text \<open>
  A model that returns the features \<open>[1, 0]\<close> for every text, a configuration with
  normalisation switched off, and the engine that construction yields for them in
  the concrete world. Every number that a search on this engine computes is a small
  integer, on which float32 and float16 arithmetic is exact.
\<close>

definition axis_model :: clip_model where
  "axis_model =
     ClipModel (\<lambda>toks. Inr \<lparr>t_dtype = float32, t_cols = 2, t_rows = map (\<lambda>t. [1, 0]) toks\<rparr>)"

definition raw_world :: world where
  "raw_world =
     demo_world\<lparr>create_model_and_transforms := (\<lambda>name pretrained dev. Inr axis_model)\<rparr>"

definition raw_config :: config where
  "raw_config = demo_config\<lparr>NORMALIZE_EMBEDDINGS := False\<rparr>"

definition raw_engine :: engine where
  "raw_engine =
     demo_engine\<lparr>config := raw_config, model := Bound (Some axis_model),
       image_embeddings_t :=
         Some \<lparr>t_dtype = float32, t_cols = 2, t_rows = [[3, 4], [2, 0], [0, 1]]\<rparr>\<rparr>"

section \<open>Running the concrete engine\<close>

lemmas run_defs =
  search_def resolve_top_k_def validate_query_def py_strip_def ascii_def py_isspace_def
  isinstance_int_def int_of_def py_min_def num_images_def search_try_def comp_bind_def
  call_def step_def moved_def get_model_def get_embeddings_t_def F_normalize_def
  normalize_row_def normalize_eps_def row0_def matmul_def dot_def torch_topk_def
  Config_defaults_def

lemmas demo_defs =
  demo_engine_def demo_config_def demo_world_def demo_tokenizer_def demo_model_def

lemmas init_defs =
  CLIPSearchEngine_def initialize_def Config_validate_def initialize_try_def
  load_embeddings_def np_load_def np_load_pickle_def embeddings_tensor_def
  bind_tokenizer_def path_join_def F_normalize_def normalize_row_def normalize_eps_def
  Config_defaults_def

lemma sqrt_25: "sqrt 25 = 5"
  using real_sqrt_abs [of 5] by simp

lemma l2_norm_3_4: "l2_norm [3, 4] = 5"
  by (simp add: l2_norm_def sqrt_25)

lemma l2_norm_4_3: "l2_norm [4, 3] = 5"
  by (simp add: l2_norm_def sqrt_25)

lemma l2_norm_2_0: "l2_norm [2, 0] = 2"
  by (simp add: l2_norm_def)

lemma l2_norm_0_1: "l2_norm [0, 1] = 1"
  by (simp add: l2_norm_def)

lemma demo_construction: "CLIPSearchEngine demo_world demo_config = Inr demo_engine"
  by (simp add: demo_defs init_defs l2_norm_3_4 l2_norm_2_0 l2_norm_0_1)

lemma demo_search_cat:
  "search demo_world demo_engine (PStr (ascii ''a cat'')) (PInt 2) =
     \<lparr>outcome = Inr [(ascii ''cat.jpg'', 24 / 25), (ascii ''dog.jpg'', 4 / 5)],
      engine_after = demo_engine,
      compute = [Tokenize, EncodeText, Normalize, MatMul, TopK]\<rparr>"
  by (simp add: run_defs demo_defs l2_norm_4_3)

lemma demo_search_all:
  "search demo_world demo_engine (PStr (ascii ''a cat'')) (PInt 20) =
     \<lparr>outcome = Inr [(ascii ''cat.jpg'', 24 / 25), (ascii ''dog.jpg'', 4 / 5),
                     (ascii ''car.jpg'', 3 / 5)],
      engine_after = demo_engine,
      compute = [Tokenize, EncodeText, Normalize, MatMul, TopK]\<rparr>"
  by (simp add: run_defs demo_defs l2_norm_4_3)

lemma demo_query_valid: "validate_query demo_engine (PStr (ascii ''a cat'')) = None"
  by (simp add: run_defs demo_defs)

lemma demo_long_query_valid:
  "validate_query demo_engine (PStr (ascii ''a very long query'')) = None"
  by (simp add: run_defs demo_defs)

lemma demo_long_query_fails:
  "search_try demo_world demo_engine (PStr (ascii ''a very long query'')) (PInt 3) =
     (Inl (PyExn (Builtin ''RuntimeError'') ''context length exceeded'' None),
      [Tokenize, EncodeText])"
  by (simp add: run_defs demo_defs)

section \<open>Query and top-k validation\<close>

lemma validate_query_class:
  "validate_query eng query = Some e \<Longrightarrow> exn_cls e = InvalidQueryError \<and> exn_cause e = None"
  by (auto simp: validate_query_def Let_def split: pyval.splits if_splits)

lemma search_query_rejected:
  "validate_query eng query = Some e \<Longrightarrow>
     search w eng query top_k = \<lparr>outcome = Inl e, engine_after = eng, compute = []\<rparr>"
  by (simp add: search_def Let_def)

lemma engine_after_search: "engine_after (search w eng query top_k) = eng"
  by (simp add: search_def Let_def split: option.splits sum.splits)

lemma validate_query_rejects:
  assumes "(\<forall>s. query \<noteq> PStr s) \<or>
     (\<exists>s. query = PStr s \<and>
        (int (length (py_strip s)) < MIN_QUERY_LENGTH (config eng)
         \<or> MAX_QUERY_LENGTH (config eng) < int (length (py_strip s))))"
  shows "\<exists>e. validate_query eng query = Some e"
  using assms by (cases query) (auto simp: validate_query_def Let_def)

text \<open>
  Claim C2. A query that is not a string, or a string whose stripped length is below
  \<open>MIN_QUERY_LENGTH\<close> or above \<open>MAX_QUERY_LENGTH\<close> (2 and 512 in the default
  configuration), makes \<open>search\<close> raise an InvalidQueryError, whatever \<open>top_k\<close> is,
  and no call of the tokenizer, the model or a numeric kernel has been made.
\<close>

theorem search_invalid_query:
  assumes "(\<forall>s. query \<noteq> PStr s) \<or>
     (\<exists>s. query = PStr s \<and>
        (int (length (py_strip s)) < MIN_QUERY_LENGTH (config eng)
         \<or> MAX_QUERY_LENGTH (config eng) < int (length (py_strip s))))"
  shows "(\<exists>e. outcome (search w eng query top_k) = Inl e \<and> exn_cls e = InvalidQueryError)
         \<and> compute (search w eng query top_k) = []"
proof -
  from assms obtain e where v: "validate_query eng query = Some e"
    using validate_query_rejects by blast
  then have "exn_cls e = InvalidQueryError"
    by (simp add: validate_query_class)
  with v show ?thesis
    by (simp add: search_query_rejected)
qed

theorem search_invalid_query_witness:
  "MIN_QUERY_LENGTH (config demo_engine) = 2 \<and> MAX_QUERY_LENGTH (config demo_engine) = 512
   \<and> length (py_strip (ascii ''   '')) = 0
   \<and> (\<exists>e. outcome (search demo_world demo_engine (PStr (ascii ''   '')) (PInt 5)) = Inl e
          \<and> exn_cls e = InvalidQueryError)
   \<and> compute (search demo_world demo_engine (PStr (ascii ''   '')) (PInt 5)) = []
   \<and> (\<exists>e. outcome (search demo_world demo_engine (PInt 123) PNone) = Inl e
          \<and> exn_cls e = InvalidQueryError)
   \<and> compute (search demo_world demo_engine (PInt 123) PNone) = []"
proof -
  have h: "length (py_strip (ascii ''   '')) = 0"
    by (simp add: py_strip_def ascii_def py_isspace_def)
  have c: "MIN_QUERY_LENGTH (config demo_engine) = 2 \<and> MAX_QUERY_LENGTH (config demo_engine) = 512"
    by (simp add: demo_defs Config_defaults_def)
  from h c have a: "(\<forall>s. PStr (ascii ''   '') \<noteq> PStr s) \<or>
     (\<exists>s. PStr (ascii ''   '') = PStr s \<and>
        (int (length (py_strip s)) < MIN_QUERY_LENGTH (config demo_engine)
         \<or> MAX_QUERY_LENGTH (config demo_engine) < int (length (py_strip s))))"
    by simp
  have b: "(\<forall>s. PInt 123 \<noteq> PStr s) \<or>
     (\<exists>s. PInt 123 = PStr s \<and>
        (int (length (py_strip s)) < MIN_QUERY_LENGTH (config demo_engine)
         \<or> MAX_QUERY_LENGTH (config demo_engine) < int (length (py_strip s))))"
    by simp
  show ?thesis
    using h c search_invalid_query [OF a, of demo_world "PInt 5"]
      search_invalid_query [OF b, of demo_world PNone]
    by simp
qed

lemma search_top_k_rejected:
  assumes "validate_query eng query = None"
    and "\<not> isinstance_int (resolve_top_k eng top_k) \<or> int_of (resolve_top_k eng top_k) < 1"
  shows "search w eng query top_k =
           \<lparr>outcome = Inl (PyExn InvalidQueryError ''top_k must be a positive integer'' None),
            engine_after = eng, compute = []\<rparr>"
  using assms by (auto simp add: search_def Let_def)

text \<open>
  Claim C3. For a query that passes validation, \<open>search\<close> raises an InvalidQueryError
  whenever \<open>top_k\<close> is not a positive integer: not an instance of \<open>int\<close>, or at most
  0. \<open>top_k\<close> is the value that is validated, which is the argument itself unless
  the argument is \<open>None\<close> (unset), for which lines 242 and 243 substitute the
  configured default first.
\<close>

theorem search_invalid_top_k:
  assumes "validate_query eng query = None"
    and "\<not> isinstance_int (resolve_top_k eng top_k) \<or> int_of (resolve_top_k eng top_k) \<le> 0"
  shows "(\<exists>e. outcome (search w eng query top_k) = Inl e \<and> exn_cls e = InvalidQueryError)
         \<and> compute (search w eng query top_k) = []"
proof -
  from assms(2) have "\<not> isinstance_int (resolve_top_k eng top_k)
      \<or> int_of (resolve_top_k eng top_k) < 1"
    by auto
  from search_top_k_rejected [OF assms(1) this] show ?thesis
    by simp
qed

theorem search_invalid_top_k_witness:
  "validate_query demo_engine (PStr (ascii ''a cat'')) = None
   \<and> resolve_top_k demo_engine (PInt 0) = PInt 0
   \<and> resolve_top_k demo_engine (PObj ''float'') = PObj ''float''
   \<and> (\<exists>e. outcome (search demo_world demo_engine (PStr (ascii ''a cat'')) (PInt 0)) = Inl e
          \<and> exn_cls e = InvalidQueryError)
   \<and> (\<exists>e. outcome (search demo_world demo_engine (PStr (ascii ''a cat'')) (PObj ''float''))
            = Inl e \<and> exn_cls e = InvalidQueryError)"
proof -
  have a: "\<not> isinstance_int (resolve_top_k demo_engine (PInt 0))
      \<or> int_of (resolve_top_k demo_engine (PInt 0)) \<le> 0"
    by (simp add: resolve_top_k_def int_of_def)
  have b: "\<not> isinstance_int (resolve_top_k demo_engine (PObj ''float''))
      \<or> int_of (resolve_top_k demo_engine (PObj ''float'')) \<le> 0"
    by (simp add: resolve_top_k_def int_of_def)
  show ?thesis
    using demo_query_valid search_invalid_top_k [OF demo_query_valid a, of demo_world]
      search_invalid_top_k [OF demo_query_valid b, of demo_world]
    by (simp add: resolve_top_k_def)
qed

section \<open>Failures of the search pipeline\<close>

lemma search_validated:
  assumes "validate_query eng query = None"
    and "isinstance_int (resolve_top_k eng top_k)"
    and "1 \<le> int_of (resolve_top_k eng top_k)"
  shows "search w eng query top_k =
     (let r = search_try w eng query (py_min (resolve_top_k eng top_k) (num_images eng)) in
      case fst r of
        Inl e \<Rightarrow> \<lparr>outcome = Inl (PyExn SearchError (''Search operation failed: '' @ exn_msg e) (Some e)),
                  engine_after = eng, compute = snd r\<rparr>
      | Inr results \<Rightarrow> \<lparr>outcome = Inr results, engine_after = eng, compute = snd r\<rparr>)"
  using assms by (simp add: search_def Let_def)

text \<open>
  Claim C7. When the query and \<open>top_k\<close> have passed validation and a step of the
  \<^verbatim>\<open>try\<close> block (tokenizing, encoding, normalising, the matrix product, the top-k
  selection, building the results) raises \<open>e\<close>, \<open>search\<close> raises a SearchError whose
  cause is \<open>e\<close> and whose message carries the message of \<open>e\<close>; that exception is
  not an InvalidQueryError; the engine is left as it was, so a later call behaves as
  it would have on the engine before the failed call.
\<close>

theorem search_failure_wrapped:
  assumes "validate_query eng query = None"
    and "isinstance_int (resolve_top_k eng top_k)"
    and "1 \<le> int_of (resolve_top_k eng top_k)"
    and "fst (search_try w eng query (py_min (resolve_top_k eng top_k) (num_images eng))) = Inl e"
  shows "outcome (search w eng query top_k)
           = Inl (PyExn SearchError (''Search operation failed: '' @ exn_msg e) (Some e))
         \<and> \<not> isinstance_exn (PyExn SearchError (''Search operation failed: '' @ exn_msg e) (Some e))
               InvalidQueryError
         \<and> engine_after (search w eng query top_k) = eng
         \<and> search w (engine_after (search w eng query top_k)) query' top_k'
             = search w eng query' top_k'"
  using assms
  by (simp add: search_validated engine_after_search isinstance_exn_def issubclass_def)

theorem search_failure_wrapped_witness:
  "outcome (search demo_world demo_engine (PStr (ascii ''a very long query'')) PNone)
     = Inl (PyExn SearchError ''Search operation failed: context length exceeded''
         (Some (PyExn (Builtin ''RuntimeError'') ''context length exceeded'' None)))
   \<and> engine_after (search demo_world demo_engine (PStr (ascii ''a very long query'')) PNone)
       = demo_engine
   \<and> outcome (search demo_world
        (engine_after (search demo_world demo_engine (PStr (ascii ''a very long query'')) PNone))
        (PStr (ascii ''a cat'')) (PInt 2))
       = Inr [(ascii ''cat.jpg'', 24 / 25), (ascii ''dog.jpg'', 4 / 5)]"
proof -
  have r: "resolve_top_k demo_engine PNone = PInt 5"
    by (simp add: resolve_top_k_def demo_defs Config_defaults_def)
  have a: "isinstance_int (resolve_top_k demo_engine PNone)"
    by (simp add: r isinstance_int_def)
  have b: "1 \<le> int_of (resolve_top_k demo_engine PNone)"
    by (simp add: r int_of_def)
  have m: "py_min (resolve_top_k demo_engine PNone) (num_images demo_engine) = PInt 3"
    unfolding r by (simp add: py_min_def int_of_def num_images_def demo_engine_def)
  have c: "fst (search_try demo_world demo_engine (PStr (ascii ''a very long query''))
             (py_min (resolve_top_k demo_engine PNone) (num_images demo_engine)))
           = Inl (PyExn (Builtin ''RuntimeError'') ''context length exceeded'' None)"
    by (simp add: m demo_long_query_fails)
  show ?thesis
    using search_failure_wrapped [OF demo_long_query_valid a b c, of "PStr (ascii ''a cat'')" "PInt 2"]
    by (simp add: demo_search_cat)
qed

section \<open>Construction\<close>

lemma initialize_try_success:
  assumes "initialize_try w eng0 = Inr eng"
  shows "\<exists>emb fns m emb_t.
           load_embeddings w (path_join (EMBEDDINGS_DIR (config eng0)) ''image_embeddings.npy'') = Inr emb
         \<and> np_load_pickle w (path_join (EMBEDDINGS_DIR (config eng0)) ''image_filenames.npy'') = Inr fns
         \<and> length (nd_rows emb) = length fns
         \<and> create_model_and_transforms w (MODEL_NAME (config eng0)) (PRETRAINED (config eng0))
              (DEVICE (config eng0)) = Inr m
         \<and> embeddings_tensor w eng0 emb = Inr emb_t
         \<and> eng = eng0\<lparr>image_embeddings := Some emb, image_filenames := Some fns,
                      model := Bound (Some m), tokenizer := Some (bind_tokenizer w (config eng0)),
                      image_embeddings_t := Some emb_t\<rparr>"
  using assms
  by (auto simp: initialize_try_def Let_def split: sum.splits if_splits)

lemma construction_success:
  assumes "CLIPSearchEngine w cfg = Inr eng"
  shows "\<exists>dev emb fns m emb_t.
           torch_device w (DEVICE cfg) = Inr dev
         \<and> Config_validate w cfg
         \<and> load_embeddings w (path_join (EMBEDDINGS_DIR cfg) ''image_embeddings.npy'') = Inr emb
         \<and> np_load_pickle w (path_join (EMBEDDINGS_DIR cfg) ''image_filenames.npy'') = Inr fns
         \<and> length (nd_rows emb) = length fns
         \<and> create_model_and_transforms w (MODEL_NAME cfg) (PRETRAINED cfg) (DEVICE cfg) = Inr m
         \<and> to_device w dev = None
         \<and> eng = \<lparr>config = cfg, model = Bound (Some m),
                   tokenizer = Some (bind_tokenizer w cfg),
                   image_embeddings = Some emb, image_filenames = Some fns,
                   image_embeddings_t = Some emb_t, device = dev\<rparr>
         \<and> length (t_rows emb_t) = length fns
         \<and> t_cols emb_t = nd_cols emb
         \<and> t_rows emb_t = (if NORMALIZE_EMBEDDINGS cfg then map normalize_row (nd_rows emb)
                            else nd_rows emb)"
proof -
  from assms obtain dev where dev: "torch_device w (DEVICE cfg) = Inr dev"
    by (auto simp: CLIPSearchEngine_def split: sum.splits)
  define eng0 where "eng0 = \<lparr>config = cfg, model = Bound None, tokenizer = None,
     image_embeddings = None, image_filenames = None, image_embeddings_t = None, device = dev\<rparr>"
  from assms dev have i: "initialize w eng0 = Inr eng"
    by (simp add: CLIPSearchEngine_def eng0_def)
  then have v: "Config_validate w cfg" and t: "initialize_try w eng0 = Inr eng"
    by (auto simp: initialize_def eng0_def split: if_splits sum.splits)
  from initialize_try_success [OF t] obtain emb fns m emb_t where
    f: "load_embeddings w (path_join (EMBEDDINGS_DIR cfg) ''image_embeddings.npy'') = Inr emb"
      "np_load_pickle w (path_join (EMBEDDINGS_DIR cfg) ''image_filenames.npy'') = Inr fns"
      "length (nd_rows emb) = length fns"
      "create_model_and_transforms w (MODEL_NAME cfg) (PRETRAINED cfg) (DEVICE cfg) = Inr m"
      "embeddings_tensor w eng0 emb = Inr emb_t"
      "eng = eng0\<lparr>image_embeddings := Some emb, image_filenames := Some fns,
                      model := Bound (Some m), tokenizer := Some (bind_tokenizer w (config eng0)),
                      image_embeddings_t := Some emb_t\<rparr>"
    by (auto simp: eng0_def)
  from f(5) have td: "to_device w dev = None"
    and rows: "t_rows emb_t = (if NORMALIZE_EMBEDDINGS cfg then map normalize_row (nd_rows emb)
                            else nd_rows emb)"
    and cols: "t_cols emb_t = nd_cols emb"
    by (auto simp: embeddings_tensor_def Let_def eng0_def F_normalize_def split: option.splits if_splits)
  from rows f(3) have len: "length (t_rows emb_t) = length fns"
    by (simp split: if_splits)
  show ?thesis
    using dev v f(1-4) td f(6) len cols rows
    by (simp add: eng0_def)
qed







section \<open>Cleanup\<close>

text \<open>
  Claim C8 says that \<open>cleanup\<close> may be called any number of times. On an engine that
  construction returned, the first call succeeds and deletes the attribute \<open>model\<close>;
  the second call reads the deleted attribute and raises an AttributeError.
\<close>

theorem cleanup_second_call_raises:
  assumes "CLIPSearchEngine w cfg = Inr eng"
  shows "\<exists>eng'. cleanup eng = Inr eng' \<and> model eng' = Deleted
           \<and> cleanup eng' = Inl (PyExn (Builtin ''AttributeError'')
                 ''CLIPSearchEngine object has no attribute model'' None)"
proof -
  from construction_success [OF assms] obtain m where "model eng = Bound (Some m)"
    by auto
  then show ?thesis
    by (simp add: cleanup_def)
qed

theorem cleanup_second_call_raises_witness:
  "cleanup demo_engine = Inr (demo_engine\<lparr>model := Deleted\<rparr>)
   \<and> cleanup (demo_engine\<lparr>model := Deleted\<rparr>)
       = Inl (PyExn (Builtin ''AttributeError'')
            ''CLIPSearchEngine object has no attribute model'' None)"
  using cleanup_second_call_raises [OF demo_construction]
  by (simp add: cleanup_def demo_engine_def)

section \<open>The exception hierarchy\<close>

lemma except_clause_bound:
  assumes "i < length cs" and "isinstance_exn e (cs ! i)"
  shows "\<exists>j\<le>i. except_clause cs e = Some j"
  using assms
proof (induction cs arbitrary: i)
  case Nil
  then show ?case by simp
next
  case (Cons c cs)
  show ?case
  proof (cases "isinstance_exn e c")
    case True
    then show ?thesis by simp
  next
    case False
    with Cons.prems obtain i' where i': "i = Suc i'"
      by (cases i) auto
    with Cons.prems have "i' < length cs" and "isinstance_exn e (cs ! i')"
      by auto
    from Cons.IH [OF this] obtain j where "j \<le> i'" and "except_clause cs e = Some j"
      by blast
    with False i' show ?thesis
      by auto
  qed
qed

text \<open>
  Claim C10. An InvalidQueryError or an InitializationError is an instance of
  SearchError, so a handler for SearchError alone catches it. In any list of
  \<^verbatim>\<open>except\<close> clauses, a clause for SearchError at position \<open>i\<close> makes every later
  clause unreachable for such an exception: it is handled at position \<open>i\<close> or before.
  With the subclasses first the three kinds reach three different clauses.
\<close>

theorem subclass_errors_caught_as_SearchError:
  assumes "exn_cls e = InvalidQueryError \<or> exn_cls e = InitializationError"
  shows "isinstance_exn e SearchError
       \<and> except_clause [SearchError] e = Some 0
       \<and> (\<forall>cs i. i < length cs \<and> cs ! i = SearchError \<longrightarrow> (\<exists>j\<le>i. except_clause cs e = Some j))
       \<and> except_clause [InvalidQueryError, InitializationError, SearchError] e
           = Some (if exn_cls e = InvalidQueryError then 0 else 1)
       \<and> except_clause [InvalidQueryError, InitializationError, SearchError]
           (PyExn SearchError msg cause) = Some 2"
proof -
  from assms have s: "isinstance_exn e SearchError"
    by (auto simp: isinstance_exn_def issubclass_def)
  have b: "\<forall>cs i. i < length cs \<and> cs ! i = SearchError \<longrightarrow> (\<exists>j\<le>i. except_clause cs e = Some j)"
    using s except_clause_bound by metis
  from assms s b show ?thesis
    by (auto simp: isinstance_exn_def issubclass_def)
qed

theorem subclass_errors_caught_as_SearchError_witness:
  "except_clause [SearchError, InvalidQueryError, InitializationError]
      (PyExn InvalidQueryError ''Query must be a string'' None) = Some 0
   \<and> except_clause [SearchError, InvalidQueryError, InitializationError]
      (PyExn InitializationError ''Configuration validation failed'' None) = Some 0
   \<and> except_clause [InvalidQueryError, InitializationError, SearchError]
      (PyExn InvalidQueryError ''Query must be a string'' None) = Some 0
   \<and> except_clause [InvalidQueryError, InitializationError, SearchError]
      (PyExn InitializationError ''Configuration validation failed'' None) = Some 1
   \<and> except_clause [InvalidQueryError, InitializationError, SearchError]
      (PyExn SearchError ''Search operation failed: x'' None) = Some 2"
proof -
  have a: "exn_cls (PyExn InvalidQueryError ''Query must be a string'' None) = InvalidQueryError
     \<or> exn_cls (PyExn InvalidQueryError ''Query must be a string'' None) = InitializationError"
    by simp
  have b: "exn_cls (PyExn InitializationError ''Configuration validation failed'' None) = InvalidQueryError
     \<or> exn_cls (PyExn InitializationError ''Configuration validation failed'' None) = InitializationError"
    by simp
  show ?thesis
    using subclass_errors_caught_as_SearchError [OF a, of "''Search operation failed: x''" None]
      subclass_errors_caught_as_SearchError [OF b, of "''Search operation failed: x''" None]
    by (simp add: isinstance_exn_def issubclass_def)
qed

section \<open>The ranking pipeline\<close>

lemma torch_topk_int: "torch_topk xs k = Inr ranked \<Longrightarrow> \<exists>n. k = PInt n"
  by (cases k) (simp_all add: torch_topk_def)

lemma sorted_desc_sort_key:
  "sorted_wrt (\<lambda>a b. b \<le> a) (map fst (sort_key (\<lambda>p. - fst p) (zs :: (real \<times> nat) list)))"
proof -
  have "sorted (map (\<lambda>p. - fst p) (sort_key (\<lambda>p. - fst p) zs))"
    by (rule sorted_sort_key)
  then show ?thesis
    by (simp add: sorted_wrt_map)
qed

lemma torch_topk_props:
  assumes "torch_topk xs (PInt n) = Inr ranked"
  shows "0 \<le> n" and "n \<le> int (length xs)" and "length ranked = nat n"
    and "sorted_wrt (\<lambda>a b. b \<le> a) (map fst ranked)"
    and "set ranked \<subseteq> set (zip xs [0..<length xs])"
proof -
  from assms have n: "0 \<le> n" "n \<le> int (length xs)"
    and r: "ranked = take (nat n) (sort_key (\<lambda>p. - fst p) (zip xs [0..<length xs]))"
    by (auto simp: torch_topk_def split: if_splits)
  show "0 \<le> n" "n \<le> int (length xs)" by (fact n)+
  from n show "length ranked = nat n"
    by (simp add: r)
  have "sorted_wrt (\<lambda>a b. b \<le> a)
          (take (nat n) (map fst (sort_key (\<lambda>p. - fst p) (zip xs [0..<length xs]))))"
    by (rule sorted_wrt_take) (rule sorted_desc_sort_key)
  then show "sorted_wrt (\<lambda>a b. b \<le> a) (map fst ranked)"
    by (simp add: r take_map)
  have "set ranked \<subseteq> set (sort_key (\<lambda>p. - fst p) (zip xs [0..<length xs]))"
    unfolding r by (rule set_take_subset)
  then show "set ranked \<subseteq> set (zip xs [0..<length xs])"
    by simp
qed

lemma torch_topk_ok:
  assumes "0 \<le> n" and "n \<le> int (length xs)"
  shows "\<exists>ranked. torch_topk xs (PInt n) = Inr ranked"
  using assms by (simp add: torch_topk_def)

lemma build_results_props:
  assumes "build_results fns ranked = Inr rs"
  shows "map snd rs = map fst ranked
       \<and> (ranked \<noteq> [] \<longrightarrow> (\<exists>names. fns = Some names \<and> fst ` set rs \<subseteq> set names))"
  using assms
proof (induction fns ranked arbitrary: rs rule: build_results.induct)
  case (1 fns)
  then show ?case by simp
next
  case (2 fns s i rest)
  from "2.prems" obtain names where f: "fns = Some names"
    by (cases fns) auto
  from "2.prems" f have i: "i < length names"
    by (auto split: if_splits)
  from "2.prems" f i obtain rs' where r: "build_results fns rest = Inr rs'"
    and rs: "rs = (names ! i, s) # rs'"
    by (auto split: sum.splits)
  from "2.IH" [OF f i r] have ih: "map snd rs' = map fst rest"
    "rest \<noteq> [] \<longrightarrow> fst ` set rs' \<subseteq> set names"
    using f by auto
  have "fst ` set rs' \<subseteq> set names"
  proof (cases rest)
    case Nil
    with r show ?thesis by auto
  next
    case Cons
    with ih(2) show ?thesis by simp
  qed
  with ih(1) i f rs show ?case
    by auto
qed

lemma build_results_ok:
  assumes "\<forall>p\<in>set ranked. snd p < length names"
  shows "\<exists>rs. build_results (Some names) ranked = Inr rs"
  using assms
proof (induction ranked)
  case Nil
  then show ?case by simp
next
  case (Cons p ranked)
  then obtain rs where "build_results (Some names) ranked = Inr rs"
    by auto
  with Cons.prems show ?case
    by (cases p) simp
qed

lemma matmul_props:
  assumes "matmul m v = Inr sims"
  shows "sims = map (\<lambda>r. dot r v) (t_rows m)" and "t_cols m = length v"
  using assms by (auto simp: matmul_def split: if_splits)

lemma comp_bind_Inr:
  "fst (comp_bind m f) = Inr y \<longleftrightarrow> (\<exists>x. fst m = Inr x \<and> fst (f x) = Inr y)"
  by (cases "fst m") (simp_all add: comp_bind_def)

lemma fst_call: "fst (call ev r) = r"
  by (simp add: call_def)

lemma fst_step: "fst (step r) = r"
  by (simp add: step_def)

lemma search_try_success:
  assumes "fst (search_try w eng query top_k) = Inr rs"
  shows "\<exists>toks m feats emb_t qv sims ranked.
           (case tokenizer eng of Some t \<Rightarrow> t | None \<Rightarrow> tokenize w) [query] = Inr toks
         \<and> to_device w (device eng) = None
         \<and> get_model eng = Inr m
         \<and> encode_text m toks = Inr feats
         \<and> image_embeddings_t eng = Some emb_t
         \<and> row0 (F_normalize (feats\<lparr>t_dtype := t_dtype emb_t\<rparr>)) = Inr qv
         \<and> matmul emb_t qv = Inr sims
         \<and> torch_topk sims top_k = Inr ranked
         \<and> build_results (image_filenames eng) ranked = Inr rs"
  using assms
  by (auto simp: search_try_def comp_bind_Inr fst_call fst_step moved_def get_embeddings_t_def
      split: option.splits)

section \<open>Results of a search\<close>

lemma constructed_engine:
  assumes "CLIPSearchEngine w cfg = Inr eng"
  shows "\<exists>emb fns m emb_t.
           config eng = cfg
         \<and> image_embeddings eng = Some emb
         \<and> image_filenames eng = Some fns
         \<and> image_embeddings_t eng = Some emb_t
         \<and> model eng = Bound (Some m)
         \<and> tokenizer eng = Some (bind_tokenizer w cfg)
         \<and> to_device w (device eng) = None
         \<and> length (t_rows emb_t) = length fns
         \<and> t_cols emb_t = nd_cols emb
         \<and> t_rows emb_t = (if NORMALIZE_EMBEDDINGS cfg then map normalize_row (nd_rows emb)
                            else nd_rows emb)"
  using construction_success [OF assms] by (elim exE conjE) simp

lemma search_success_validated:
  assumes "outcome (search w eng query top_k) = Inr rs"
  shows "validate_query eng query = None"
    and "isinstance_int (resolve_top_k eng top_k)"
    and "1 \<le> int_of (resolve_top_k eng top_k)"
    and "fst (search_try w eng query (py_min (resolve_top_k eng top_k) (num_images eng))) = Inr rs"
  using assms
  by (auto simp: search_def Let_def split: option.splits if_splits sum.splits)

text \<open>
  Claim C6. When \<open>search\<close> returns and the validated \<open>top_k\<close> is an integer \<open>k\<close>
  not above the number of images, it returns exactly \<open>k\<close> pairs, and the identifier
  of every pair is an entry of the engine's identifiers array.
\<close>

theorem search_returns_k_known_identifiers:
  assumes "outcome (search w eng query top_k) = Inr rs"
    and "int_of (resolve_top_k eng top_k) = k"
    and "k \<le> num_images eng"
  shows "int (length rs) = k
       \<and> (\<exists>names. image_filenames eng = Some names \<and> fst ` set rs \<subseteq> set names)"
proof -
  note v = search_success_validated [OF assms(1)]
  from v(4) obtain sims ranked where
    t: "torch_topk sims (py_min (resolve_top_k eng top_k) (num_images eng)) = Inr ranked"
    and b: "build_results (image_filenames eng) ranked = Inr rs"
    using search_try_success by blast
  from torch_topk_int [OF t] obtain n where
    n: "py_min (resolve_top_k eng top_k) (num_images eng) = PInt n"
    by blast
  from assms(2,3) have "\<not> num_images eng < int_of (resolve_top_k eng top_k)"
    by simp
  with n assms(2) have nk: "n = k"
    by (auto simp: py_min_def int_of_def split: if_splits)
  from t n nk have len: "length ranked = nat k"
    by (simp add: torch_topk_props(3))
  from v(3) assms(2) have k1: "1 \<le> k"
    by simp
  with len have ne: "ranked \<noteq> []"
    by auto
  from build_results_props [OF b] ne have m: "map snd rs = map fst ranked"
    and ids: "\<exists>names. image_filenames eng = Some names \<and> fst ` set rs \<subseteq> set names"
    by auto
  from m have "length rs = length ranked"
    by (metis length_map)
  with len k1 ids show ?thesis
    by simp
qed

theorem search_returns_k_known_identifiers_witness:
  "outcome (search demo_world demo_engine (PStr (ascii ''a cat'')) (PInt 2))
     = Inr [(ascii ''cat.jpg'', 24 / 25), (ascii ''dog.jpg'', 4 / 5)]
   \<and> int_of (resolve_top_k demo_engine (PInt 2)) = 2
   \<and> 2 \<le> num_images demo_engine
   \<and> int (length [(ascii ''cat.jpg'', 24 / 25 :: real), (ascii ''dog.jpg'', 4 / 5)]) = 2
   \<and> (\<exists>names. image_filenames demo_engine = Some names
         \<and> fst ` set [(ascii ''cat.jpg'', 24 / 25 :: real), (ascii ''dog.jpg'', 4 / 5)]
             \<subseteq> set names)"
proof -
  have a: "outcome (search demo_world demo_engine (PStr (ascii ''a cat'')) (PInt 2))
     = Inr [(ascii ''cat.jpg'', 24 / 25), (ascii ''dog.jpg'', 4 / 5)]"
    by (simp add: demo_search_cat)
  have b: "int_of (resolve_top_k demo_engine (PInt 2)) = 2"
    by (simp add: resolve_top_k_def int_of_def)
  have c: "2 \<le> num_images demo_engine"
    by (simp add: num_images_def demo_engine_def)
  show ?thesis
    using a b c search_returns_k_known_identifiers [OF a b c]
    by simp
qed

text \<open>
  Claim C5 says that the scores of every successful search are sorted in descending
  order and lie between -1 and 1, as the docstring of \<^verbatim>\<open>search_images\<close> and the
  response schema of the API say. The code returns the inner products as it computes
  them and never clamps them. With \<open>NORMALIZE_EMBEDDINGS\<close> switched off the stored
  rows are used as the snapshot has them: for the row \<open>[3, 4]\<close> and the query
  features \<open>[1, 0]\<close> the search succeeds with the score 3, a value that the float32
  arithmetic of the code computes exactly.
\<close>

theorem search_score_above_one:
  "CLIPSearchEngine raw_world raw_config = Inr raw_engine
   \<and> outcome (search raw_world raw_engine (PStr (ascii ''a cat'')) (PInt 1))
       = Inr [(ascii ''cat.jpg'', 3)]
   \<and> \<not> (3 \<le> (1 :: real))"
proof -
  have a: "CLIPSearchEngine raw_world raw_config = Inr raw_engine"
    by (simp add: raw_world_def raw_config_def raw_engine_def demo_defs init_defs)
  have n: "l2_norm [1, 0] = 1"
    by (simp add: l2_norm_def)
  have b: "outcome (search raw_world raw_engine (PStr (ascii ''a cat'')) (PInt 1))
       = Inr [(ascii ''cat.jpg'', 3)]"
    by (simp add: run_defs raw_world_def raw_engine_def raw_config_def axis_model_def
        demo_defs n)
  from a b show ?thesis
    by simp
qed

theorem search_score_above_one_witness:
  "\<exists>rs. outcome (search raw_world raw_engine (PStr (ascii ''a cat'')) (PInt 1)) = Inr rs
        \<and> list_ex (\<lambda>p. 1 < snd p) rs"
  using search_score_above_one by simp

text \<open>
  Claim C4. On a constructed engine, for a query that passes validation and an integer
  \<open>top_k\<close> above the number \<open>N\<close> of images, \<open>top_k\<close> is clamped to \<open>N\<close> before the
  selection, and when the encoding succeeds (the tokenizer and the model return, and
  the features have a first row of the dimension of the stored embeddings), \<open>search\<close>
  does not raise and returns exactly \<open>N\<close> results.
\<close>

theorem search_top_k_clamped:
  assumes c: "CLIPSearchEngine w cfg = Inr eng"
    and v: "validate_query eng query = None"
    and n: "num_images eng < n"
    and tk: "bind_tokenizer w cfg [query] = Inr toks"
    and m: "model eng = Bound (Some m)"
    and enc: "encode_text m toks = Inr feats"
    and row: "t_rows feats = r # rest"
    and emb: "image_embeddings eng = Some emb"
    and dim: "length r = nd_cols emb"
  shows "py_min (resolve_top_k eng (PInt n)) (num_images eng) = PInt (num_images eng)
       \<and> (\<exists>rs. outcome (search w eng query (PInt n)) = Inr rs
              \<and> int (length rs) = num_images eng)"
proof -
  from constructed_engine [OF c] emb obtain fns emb_t where
    e: "tokenizer eng = Some (bind_tokenizer w cfg)" "to_device w (device eng) = None"
      "image_filenames eng = Some fns" "image_embeddings_t eng = Some emb_t"
      "length (t_rows emb_t) = length fns" "t_cols emb_t = nd_cols emb"
    by auto
  have N: "num_images eng = int (length fns)"
    by (simp add: num_images_def e(3))
  have r: "resolve_top_k eng (PInt n) = PInt n"
    by (simp add: resolve_top_k_def)
  from n have pm: "py_min (resolve_top_k eng (PInt n)) (num_images eng) = PInt (num_images eng)"
    by (simp add: r py_min_def int_of_def)
  define qv where "qv = normalize_row r"
  define sims where "sims = map (\<lambda>x. dot x qv) (t_rows emb_t)"
  have q: "row0 (F_normalize (feats\<lparr>t_dtype := t_dtype emb_t\<rparr>)) = Inr qv"
    by (simp add: row0_def F_normalize_def row qv_def)
  have "length qv = nd_cols emb"
    by (simp add: qv_def normalize_row_def dim)
  then have mm: "matmul emb_t qv = Inr sims"
    by (simp add: matmul_def e(6) sims_def)
  have ls: "length sims = length fns"
    by (simp add: sims_def e(5))
  then obtain ranked where t: "torch_topk sims (PInt (num_images eng)) = Inr ranked"
    using torch_topk_ok [of "num_images eng" sims] by (auto simp: N)
  from torch_topk_props(5) [OF t] ls have "\<forall>p\<in>set ranked. snd p < length fns"
    by (auto dest!: subsetD set_zip_rightD)
  then obtain rs where b: "build_results (Some fns) ranked = Inr rs"
    using build_results_ok by blast
  from build_results_props [OF b] have "map snd rs = map fst ranked"
    by simp
  then have "length rs = length ranked"
    by (metis length_map)
  with torch_topk_props(3) [OF t] have len: "int (length rs) = num_images eng"
    by (simp add: N)
  have s: "fst (search_try w eng query (PInt (num_images eng))) = Inr rs"
    using tk m enc q mm t b e
    by (simp add: search_try_def comp_bind_Inr fst_call fst_step moved_def get_model_def
        get_embeddings_t_def)
  from n have k1: "1 \<le> int_of (resolve_top_k eng (PInt n))"
    by (simp add: r int_of_def N)
  have "isinstance_int (resolve_top_k eng (PInt n))"
    by (simp add: r isinstance_int_def)
  from search_validated [OF v this k1, of w] s pm
  have "outcome (search w eng query (PInt n)) = Inr rs"
    by (simp add: Let_def)
  with len pm show ?thesis
    by blast
qed

theorem search_top_k_clamped_witness:
  "num_images demo_engine = 3
   \<and> py_min (resolve_top_k demo_engine (PInt 20)) (num_images demo_engine) = PInt 3
   \<and> outcome (search demo_world demo_engine (PStr (ascii ''a cat'')) (PInt 20))
       = Inr [(ascii ''cat.jpg'', 24 / 25), (ascii ''dog.jpg'', 4 / 5), (ascii ''car.jpg'', 3 / 5)]"
proof -
  have n: "num_images demo_engine = 3"
    by (simp add: num_images_def demo_engine_def)
  then have lt: "num_images demo_engine < 20"
    by simp
  have tk: "bind_tokenizer demo_world demo_config [PStr (ascii ''a cat'')]
      = Inr [[97, 32, 99, 97, 116]]"
    by (simp add: bind_tokenizer_def demo_defs Config_defaults_def ascii_def)
  have m: "model demo_engine = Bound (Some demo_model)"
    by (simp add: demo_engine_def)
  have enc: "encode_text demo_model [[97, 32, 99, 97, 116]]
      = Inr \<lparr>t_dtype = float32, t_cols = 2, t_rows = [[4, 3]]\<rparr>"
    by (simp add: demo_model_def)
  have row: "t_rows \<lparr>t_dtype = float32, t_cols = 2, t_rows = [[4, 3 :: real]]\<rparr> = [4, 3] # []"
    by simp
  have emb: "image_embeddings demo_engine
      = Some \<lparr>nd_cols = 2, nd_rows = [[3, 4], [2, 0], [0, 1]]\<rparr>"
    by (simp add: demo_engine_def)
  have dim: "length [4, 3 :: real] = nd_cols \<lparr>nd_cols = 2, nd_rows = [[3, 4], [2, 0], [0, 1 :: real]]\<rparr>"
    by simp
  show ?thesis
    using n search_top_k_clamped [OF demo_construction demo_query_valid lt tk m enc row emb dim]
    by (simp add: demo_search_all)
qed

end
